theory Spec2Isabelle
  imports Main
begin

section \<open>The presence registry of p2p-share: server/models.py and server/main.py\<close>

subsection \<open>Data model\<close>

text \<open>
  A \<open>datetime\<close> is a count of microseconds (the resolution of Python's datetime);
  \<open>timedelta seconds\<close> is the length of that many seconds. Every call of
  \<open>datetime.utcnow()\<close> in the source is a parameter \<open>now\<close> of the model.
\<close>

type_synonym datetime = int

definition timedelta :: "int \<Rightarrow> int" where
  "timedelta seconds = seconds * 1000000"

text \<open>
  One row of the table \<open>users\<close> (class \<open>User\<close> of models.py). The primary key
  \<open>id\<close> is the field \<open>user_id\<close> here.
\<close>

record User =
  user_id :: nat
  username :: string
  hashed_password :: string
  is_online :: bool
  last_ping :: datetime
  is_busy :: bool

text \<open>The table, in insertion order. The column \<open>username\<close> is declared unique.\<close>

type_synonym db = "User list"

definition unique_usernames :: "db \<Rightarrow> bool" where
  "unique_usernames d = distinct (map username d)"

text \<open>
  What a request can raise: an \<open>HTTPException\<close> of the endpoint itself, or an
  exception out of passlib's \<open>pwd_context\<close>, which no endpoint catches (the client
  then gets status 500).
\<close>

datatype exception = HTTPException (status_code: nat) (detail: string) | PasslibError

text \<open>A JSON object returned by an endpoint: its keys and values in order.\<close>

type_synonym response = "(string \<times> string) list"

subsection \<open>Queries and updates on the table\<close>

text \<open>\<open>db.query(User).filter(User.username == name).first()\<close>\<close>

fun query_first :: "db \<Rightarrow> string \<Rightarrow> User option" where
  "query_first [] name = None"
| "query_first (u # us) name = (if username u = name then Some u else query_first us name)"

text \<open>
  Assigning to the fields of the row that \<open>query_first\<close> returned and committing:
  the first row of that username is replaced by its image under \<open>f\<close>.
\<close>

fun commit_update :: "(User \<Rightarrow> User) \<Rightarrow> string \<Rightarrow> db \<Rightarrow> db" where
  "commit_update f name [] = []"
| "commit_update f name (u # us) =
     (if username u = name then f u # us else u # commit_update f name us)"

text \<open>The key of a new row: one more than the largest key in the table.\<close>

definition next_id :: "db \<Rightarrow> nat" where
  "next_id d = Suc (fold max (map user_id d) 0)"

subsection \<open>Endpoints\<close>

text \<open>
  Every endpoint takes the table and returns its result with the table after the call:
  \<open>Inl\<close> is the exception raised, \<open>Inr\<close> the value returned. The password
  hashing context of passlib is outside the repository: \<open>pwd_hash\<close> and
  \<open>pwd_verify\<close> are parameters, and each gives \<open>None\<close> where the library raises
  instead of returning. \<open>register\<close> hashes after the check for an existing row and
  before the insert; \<open>login\<close> verifies only when a row was found, as the \<open>or\<close> of
  its condition does.
\<close>

definition register ::
  "(string \<Rightarrow> string option) \<Rightarrow> datetime \<Rightarrow> string \<Rightarrow> string \<Rightarrow> db
     \<Rightarrow> (exception + response) \<times> db" where
  "register pwd_hash now uname password d =
     (case query_first d uname of
        Some db_user \<Rightarrow> (Inl (HTTPException 400 ''Username already registered''), d)
      | None \<Rightarrow>
          (case pwd_hash password of
             None \<Rightarrow> (Inl PasslibError, d)
           | Some hashed \<Rightarrow>
               (let new_user = \<lparr>user_id = next_id d, username = uname,
                                 hashed_password = hashed,
                                 is_online = False, last_ping = now, is_busy = False\<rparr>
                in (Inr [(''message'', ''User created successfully'')], d @ [new_user]))))"

definition login ::
  "(string \<Rightarrow> string \<Rightarrow> bool option) \<Rightarrow> datetime \<Rightarrow> string \<Rightarrow> string \<Rightarrow> db
     \<Rightarrow> (exception + response) \<times> db" where
  "login pwd_verify now uname password d =
     (case query_first d uname of
        None \<Rightarrow> (Inl (HTTPException 400 ''Invalid credentials''), d)
      | Some db_user \<Rightarrow>
          (case pwd_verify password (hashed_password db_user) of
             None \<Rightarrow> (Inl PasslibError, d)
           | Some verified \<Rightarrow>
               if \<not> verified
               then (Inl (HTTPException 400 ''Invalid credentials''), d)
               else (Inr [(''username'', username db_user), (''message'', ''Login successful'')],
                     commit_update (\<lambda>u. u\<lparr>is_online := True, last_ping := now\<rparr>) uname d)))"

definition ping :: "datetime \<Rightarrow> string \<Rightarrow> db \<Rightarrow> (exception + response) \<times> db" where
  "ping now uname d =
     (case query_first d uname of
        None \<Rightarrow> (Inl (HTTPException 404 ''User not found''), d)
      | Some db_user \<Rightarrow>
          (Inr [(''status'', ''ok'')],
           commit_update (\<lambda>u. u\<lparr>last_ping := now, is_online := True\<rparr>) uname d))"

definition get_users :: "datetime \<Rightarrow> db \<Rightarrow> User list" where
  "get_users now d =
     (let cutoff = now - timedelta 60
      in filter (\<lambda>u. is_online u = True \<and> last_ping u > cutoff \<and> is_busy u = False) d)"

definition update_status ::
  "string \<Rightarrow> bool \<Rightarrow> db \<Rightarrow> (exception + response) \<times> db" where
  "update_status uname busy d =
     (case query_first d uname of
        None \<Rightarrow> (Inl (HTTPException 404 ''User not found''), d)
      | Some db_user \<Rightarrow>
          (Inr [(''status'', ''updated'')],
           commit_update (\<lambda>u. u\<lparr>is_busy := busy\<rparr>) uname d))"

subsection \<open>The background task\<close>

text \<open>
  One pass of the body of the loop of \<open>prune_users\<close>, at the clock reading \<open>now\<close>.
  \<open>stale cutoff\<close> is the filter of the query for \<open>stale_users\<close>; the rows it
  selects are assigned \<open>is_online = False\<close> and \<open>is_busy = False\<close> and committed
  together, the other rows are left as they are.
\<close>

definition stale :: "datetime \<Rightarrow> User \<Rightarrow> bool" where
  "stale cutoff u = (is_online u = True \<and> last_ping u < cutoff)"

definition prune_cycle :: "datetime \<Rightarrow> db \<Rightarrow> db" where
  "prune_cycle now d =
     (let cutoff = now - timedelta 60
      in map (\<lambda>u. if stale cutoff u then u\<lparr>is_online := False, is_busy := False\<rparr> else u) d)"

text \<open>The loop, run for the clock readings of its successive passes.\<close>

fun prune_users :: "datetime list \<Rightarrow> db \<Rightarrow> db" where
  "prune_users [] d = d"
| "prune_users (now # nows) d = prune_users nows (prune_cycle now d)"

subsection \<open>Runs of the store\<close>

text \<open>
  The operations that change the table, and the table after one of them: a request to
  an endpoint, whether it succeeds or raises, or one pass of the background task.
\<close>

datatype operation =
    Register string string datetime
  | Login string string datetime
  | Ping string datetime
  | SetBusy string bool
  | Sweep datetime

fun step ::
  "(string \<Rightarrow> string option) \<Rightarrow> (string \<Rightarrow> string \<Rightarrow> bool option) \<Rightarrow> operation \<Rightarrow> db \<Rightarrow> db" where
  "step pwd_hash pwd_verify (Register uname password now) d =
     snd (register pwd_hash now uname password d)"
| "step pwd_hash pwd_verify (Login uname password now) d =
     snd (login pwd_verify now uname password d)"
| "step pwd_hash pwd_verify (Ping uname now) d = snd (ping now uname d)"
| "step pwd_hash pwd_verify (SetBusy uname busy) d = snd (update_status uname busy d)"
| "step pwd_hash pwd_verify (Sweep now) d = prune_cycle now d"

fun run ::
  "(string \<Rightarrow> string option) \<Rightarrow> (string \<Rightarrow> string \<Rightarrow> bool option) \<Rightarrow> operation list \<Rightarrow> db \<Rightarrow> db" where
  "run pwd_hash pwd_verify [] d = d"
| "run pwd_hash pwd_verify (opn # opns) d =
     run pwd_hash pwd_verify opns (step pwd_hash pwd_verify opn d)"

text \<open>No row is offline and busy.\<close>

definition no_phantom_busy :: "db \<Rightarrow> bool" where
  "no_phantom_busy d = list_all (\<lambda>u. is_online u = False \<longrightarrow> is_busy u = False) d"

text \<open>
  An operation other than marking busy a user who is offline at that moment, and a run
  made of such operations only.
\<close>

fun busy_while_online :: "operation \<Rightarrow> db \<Rightarrow> bool" where
  "busy_while_online (SetBusy uname True) d =
     (case query_first d uname of None \<Rightarrow> True | Some u \<Rightarrow> is_online u)"
| "busy_while_online opn d = True"

fun run_busy_while_online ::
  "(string \<Rightarrow> string option) \<Rightarrow> (string \<Rightarrow> string \<Rightarrow> bool option) \<Rightarrow> operation list \<Rightarrow> db \<Rightarrow> bool" where
  "run_busy_while_online pwd_hash pwd_verify [] d = True"
| "run_busy_while_online pwd_hash pwd_verify (opn # opns) d =
     (busy_while_online opn d \<and>
      run_busy_while_online pwd_hash pwd_verify opns (step pwd_hash pwd_verify opn d))"

subsection \<open>An instance of the password context\<close>

text \<open>
  For the examples: a hash and a verification that raise on a password containing a
  NUL byte, as passlib's bcrypt handler does, and otherwise agree with each other. The
  digest is a stand-in (the password reversed).
\<close>

definition nul_rejecting_hash :: "string \<Rightarrow> string option" where
  "nul_rejecting_hash password =
     (if CHR 0x00 \<in> set password then None else Some (rev password))"

definition nul_rejecting_verify :: "string \<Rightarrow> string \<Rightarrow> bool option" where
  "nul_rejecting_verify password hashed =
     (if CHR 0x00 \<in> set password then None else Some (rev password = hashed))"

section \<open>Properties\<close>

subsection \<open>Lookups and updates\<close>

lemma query_first_None_iff: "(query_first d k = None) = (k \<notin> set (map username d))"
  by (induction d) auto

lemma query_first_SomeD: "query_first d k = Some u \<Longrightarrow> u \<in> set d \<and> username u = k"
  by (induction d) (auto split: if_splits)

lemma query_first_append:
  "query_first (d @ e) k = (case query_first d k of Some u \<Rightarrow> Some u | None \<Rightarrow> query_first e k)"
  by (induction d) auto

lemma query_first_commit_update_same:
  "(\<And>u. username (f u) = username u) \<Longrightarrow>
   query_first (commit_update f k d) k = map_option f (query_first d k)"
  by (induction d) auto

lemma query_first_commit_update_other:
  "(\<And>u. username (f u) = username u) \<Longrightarrow> k' \<noteq> k \<Longrightarrow>
   query_first (commit_update f k d) k' = query_first d k'"
  by (induction d) auto

lemma commit_update_absent: "query_first d k = None \<Longrightarrow> commit_update f k d = d"
  by (induction d) (auto split: if_splits)

lemma commit_update_twice:
  "(\<And>u. username (f u) = username u) \<Longrightarrow>
   commit_update g k (commit_update f k d) = commit_update (g \<circ> f) k d"
  by (induction d) auto

lemma map_username_commit_update:
  "(\<And>u. username (f u) = username u) \<Longrightarrow> map username (commit_update f k d) = map username d"
  by (induction d) auto

lemma unique_usernames_eq:
  "unique_usernames d \<Longrightarrow> u \<in> set d \<Longrightarrow> u' \<in> set d \<Longrightarrow> username u = username u' \<Longrightarrow> u = u'"
  unfolding unique_usernames_def by (meson distinct_map inj_onD)

subsection \<open>Registration\<close>

text \<open>
  Claim C5, as amended. \<open>register\<close> fails with status 400 and the detail "Username
  already registered" exactly when a row of that username exists. From a table without
  the username, a call whose password hashing returns succeeds and appends the row in
  its initial state (offline, not busy, \<open>last_ping\<close> the time of creation), and a
  second call for the same username, whatever its password, hashing and time, fails
  with that error.
\<close>

theorem register_duplicate_rejection:
  "(fst (register pwd_hash now k pw d) = Inl (HTTPException 400 ''Username already registered''))
     = (k \<in> set (map username d))
   \<and> (k \<notin> set (map username d) \<and> pwd_hash pw = Some hashed \<longrightarrow>
        fst (register pwd_hash now k pw d) = Inr [(''message'', ''User created successfully'')]
      \<and> snd (register pwd_hash now k pw d) =
          d @ [\<lparr>user_id = next_id d, username = k, hashed_password = hashed,
                 is_online = False, last_ping = now, is_busy = False\<rparr>]
      \<and> register pwd_hash' now' k pw' (snd (register pwd_hash now k pw d)) =
          (Inl (HTTPException 400 ''Username already registered''),
           snd (register pwd_hash now k pw d)))"
proof -
  have dup: "(fst (register pwd_hash now k pw d) = Inl (HTTPException 400 ''Username already registered''))
     = (k \<in> set (map username d))"
    using query_first_None_iff [of d k]
    by (cases "query_first d k"; cases "pwd_hash pw") (simp_all add: register_def Let_def)
  have seq: "fst (register pwd_hash now k pw d) = Inr [(''message'', ''User created successfully'')]
      \<and> snd (register pwd_hash now k pw d) =
          d @ [\<lparr>user_id = next_id d, username = k, hashed_password = hashed,
                 is_online = False, last_ping = now, is_busy = False\<rparr>]
      \<and> register pwd_hash' now' k pw' (snd (register pwd_hash now k pw d)) =
          (Inl (HTTPException 400 ''Username already registered''),
           snd (register pwd_hash now k pw d))"
    if absent: "k \<notin> set (map username d)" and hashes: "pwd_hash pw = Some hashed"
  proof -
    from absent have none: "query_first d k = None" by (simp add: query_first_None_iff)
    with hashes show ?thesis
      by (simp add: register_def Let_def query_first_append)
  qed
  from dup seq show ?thesis by blast
qed

theorem register_duplicate_rejection_witness:
  "''alice'' \<notin> set (map username [])
   \<and> nul_rejecting_hash ''pw'' = Some ''wp''
   \<and> register nul_rejecting_hash 0 ''alice'' ''pw'' [] =
       (Inr [(''message'', ''User created successfully'')],
        [\<lparr>user_id = 1, username = ''alice'', hashed_password = ''wp'',
          is_online = False, last_ping = 0, is_busy = False\<rparr>])
   \<and> fst (register nul_rejecting_hash 5 ''alice'' ''other''
            (snd (register nul_rejecting_hash 0 ''alice'' ''pw'' []))) =
       Inl (HTTPException 400 ''Username already registered'')"
proof -
  have hashes: "nul_rejecting_hash ''pw'' = Some ''wp''"
    by (simp add: nul_rejecting_hash_def)
  from register_duplicate_rejection [of nul_rejecting_hash 0 "''alice''" "''pw''" "[]"
      "''wp''" nul_rejecting_hash 5 "''other''"] hashes
  show ?thesis by (simp add: register_def next_id_def nul_rejecting_hash_def)
qed

text \<open>
  Claim C5 as stated fails: when the hashing of the password raises, \<open>register\<close> for
  an absent username fails without inserting a row, so two calls in sequence give no
  success and no duplicate-username failure.
\<close>

theorem register_twice_counterexample:
  "''alice'' \<notin> set (map username [])
   \<and> register nul_rejecting_hash 0 ''alice'' [CHR ''p'', CHR 0x00] [] = (Inl PasslibError, [])
   \<and> register nul_rejecting_hash 1 ''alice'' [CHR ''p'', CHR 0x00]
        (snd (register nul_rejecting_hash 0 ''alice'' [CHR ''p'', CHR 0x00] []))
      = (Inl PasslibError, [])"
  by (simp add: register_def nul_rejecting_hash_def)

subsection \<open>Offline rows are not busy\<close>

lemma commit_update_list_all:
  "list_all P d \<Longrightarrow> (\<And>u. query_first d k = Some u \<Longrightarrow> P (f u)) \<Longrightarrow> list_all P (commit_update f k d)"
  by (induction d) (auto split: if_splits)

lemma no_phantom_busy_step:
  "no_phantom_busy d \<Longrightarrow> busy_while_online opn d \<Longrightarrow> no_phantom_busy (step h v opn d)"
proof (cases opn)
  case (Register k p now)
  assume "no_phantom_busy d"
  then show ?thesis
    by (simp add: Register register_def no_phantom_busy_def Let_def split: option.splits)
next
  case (Login k p now)
  assume "no_phantom_busy d"
  then show ?thesis
    by (auto simp: Login login_def no_phantom_busy_def intro!: commit_update_list_all split: option.splits)
next
  case (Ping k now)
  assume "no_phantom_busy d"
  then show ?thesis
    by (auto simp: Ping ping_def no_phantom_busy_def intro!: commit_update_list_all split: option.splits)
next
  case (SetBusy k b)
  assume inv: "no_phantom_busy d" and ok: "busy_while_online opn d"
  show ?thesis
  proof (cases "query_first d k")
    case None
    with inv show ?thesis by (simp add: SetBusy update_status_def)
  next
    case (Some u)
    then have mem: "u \<in> set d" by (simp add: query_first_SomeD)
    with inv have u: "is_online u = False \<longrightarrow> is_busy u = False"
      by (simp add: no_phantom_busy_def list_all_iff)
    have "is_online u = False \<longrightarrow> b = False"
      using ok Some u by (cases b) (simp_all add: SetBusy)
    with inv Some show ?thesis
      by (auto simp: SetBusy update_status_def no_phantom_busy_def intro!: commit_update_list_all)
  qed
next
  case (Sweep now)
  assume "no_phantom_busy d"
  then show ?thesis
    by (auto simp: Sweep prune_cycle_def no_phantom_busy_def list_all_iff Let_def)
qed

lemma no_phantom_busy_run:
  "no_phantom_busy d \<Longrightarrow> run_busy_while_online h v opns d \<Longrightarrow> no_phantom_busy (run h v opns d)"
  by (induction opns arbitrary: d) (simp_all add: no_phantom_busy_step)

text \<open>
  Claim C1, as amended. From the empty table, every run of register, login, ping,
  set-busy and sweeper operations in which busy is set to true only for a user who is
  online at that moment (or who does not exist) ends in a table where every offline
  row is not busy.
\<close>

theorem reachable_no_phantom_busy:
  "run_busy_while_online pwd_hash pwd_verify opns [] \<Longrightarrow>
   no_phantom_busy (run pwd_hash pwd_verify opns [])"
  by (rule no_phantom_busy_run) (simp_all add: no_phantom_busy_def)

theorem reachable_no_phantom_busy_witness:
  "run_busy_while_online nul_rejecting_hash nul_rejecting_verify
     [Register ''alice'' ''pw'' 0, Login ''alice'' ''pw'' 1, SetBusy ''alice'' True,
      Sweep 70000000] []
   \<and> no_phantom_busy (run nul_rejecting_hash nul_rejecting_verify
     [Register ''alice'' ''pw'' 0, Login ''alice'' ''pw'' 1, SetBusy ''alice'' True,
      Sweep 70000000] [])
   \<and> run nul_rejecting_hash nul_rejecting_verify
     [Register ''alice'' ''pw'' 0, Login ''alice'' ''pw'' 1, SetBusy ''alice'' True,
      Sweep 70000000] [] =
     [\<lparr>user_id = 1, username = ''alice'', hashed_password = ''wp'',
       is_online = False, last_ping = 1, is_busy = False\<rparr>]"
proof -
  have ok: "run_busy_while_online nul_rejecting_hash nul_rejecting_verify
     [Register ''alice'' ''pw'' 0, Login ''alice'' ''pw'' 1, SetBusy ''alice'' True,
      Sweep 70000000] []"
    by (simp add: register_def login_def update_status_def next_id_def
        nul_rejecting_hash_def nul_rejecting_verify_def)
  have res: "run nul_rejecting_hash nul_rejecting_verify
     [Register ''alice'' ''pw'' 0, Login ''alice'' ''pw'' 1, SetBusy ''alice'' True,
      Sweep 70000000] [] =
     [\<lparr>user_id = 1, username = ''alice'', hashed_password = ''wp'',
       is_online = False, last_ping = 1, is_busy = False\<rparr>]"
    by (simp add: register_def login_def update_status_def next_id_def prune_cycle_def
        stale_def timedelta_def nul_rejecting_hash_def nul_rejecting_verify_def)
  from ok res reachable_no_phantom_busy [OF ok] show ?thesis by simp
qed

text \<open>
  Claim C1 as stated fails: \<open>update_status\<close> does not look at \<open>is_online\<close>, so
  marking a freshly registered user busy gives a row that is offline and busy.
\<close>

theorem phantom_busy_counterexample:
  "\<not> no_phantom_busy (run nul_rejecting_hash nul_rejecting_verify [Register ''alice'' ''pw'' 0, SetBusy ''alice'' True] [])"
  by (simp add: register_def update_status_def next_id_def no_phantom_busy_def
      nul_rejecting_hash_def)

subsection \<open>The sweeper\<close>

lemma query_first_map:
  "(\<And>u. username (f u) = username u) \<Longrightarrow>
   query_first (map f d) k = map_option f (query_first d k)"
  by (induction d) auto

text \<open>
  Claim C2. One pass of the sweeper at time \<open>now\<close> keeps the number and the order of
  the rows; a row that is online with \<open>now - last_ping\<close> above 60 seconds becomes
  offline and not busy, its other fields as before, and every other row is unchanged.
  The same read through the key: the row found for a username is the swept image of
  the row found before.
\<close>

theorem prune_cycle_eviction:
  "length (prune_cycle now d) = length d
   \<and> (\<forall>i < length d.
        (is_online (d ! i) = True \<and> now - last_ping (d ! i) > timedelta 60 \<longrightarrow>
           prune_cycle now d ! i = (d ! i)\<lparr>is_online := False, is_busy := False\<rparr>)
      \<and> (\<not> (is_online (d ! i) = True \<and> now - last_ping (d ! i) > timedelta 60) \<longrightarrow>
           prune_cycle now d ! i = d ! i))
   \<and> (\<forall>u. query_first d k = Some u \<longrightarrow>
        (is_online u = True \<and> now - last_ping u > timedelta 60 \<longrightarrow>
           query_first (prune_cycle now d) k = Some (u\<lparr>is_online := False, is_busy := False\<rparr>))
      \<and> (\<not> (is_online u = True \<and> now - last_ping u > timedelta 60) \<longrightarrow>
           query_first (prune_cycle now d) k = Some u))
   \<and> (query_first d k = None \<longrightarrow> query_first (prune_cycle now d) k = None)"
proof -
  have st: "stale (now - timedelta 60) u = (is_online u = True \<and> now - last_ping u > timedelta 60)"
    for u by (auto simp: stale_def)
  have rows: "\<forall>i < length d.
        (is_online (d ! i) = True \<and> now - last_ping (d ! i) > timedelta 60 \<longrightarrow>
           prune_cycle now d ! i = (d ! i)\<lparr>is_online := False, is_busy := False\<rparr>)
      \<and> (\<not> (is_online (d ! i) = True \<and> now - last_ping (d ! i) > timedelta 60) \<longrightarrow>
           prune_cycle now d ! i = d ! i)"
    by (simp add: prune_cycle_def Let_def st)
  have keys: "query_first (prune_cycle now d) k =
      map_option (\<lambda>u. if stale (now - timedelta 60) u
                       then u\<lparr>is_online := False, is_busy := False\<rparr> else u) (query_first d k)"
    unfolding prune_cycle_def Let_def by (rule query_first_map) simp
  have len: "length (prune_cycle now d) = length d"
    by (simp add: prune_cycle_def Let_def)
  from keys have found: "\<forall>u. query_first d k = Some u \<longrightarrow>
        (is_online u = True \<and> now - last_ping u > timedelta 60 \<longrightarrow>
           query_first (prune_cycle now d) k = Some (u\<lparr>is_online := False, is_busy := False\<rparr>))
      \<and> (\<not> (is_online u = True \<and> now - last_ping u > timedelta 60) \<longrightarrow>
           query_first (prune_cycle now d) k = Some u)"
    by (simp add: st)
  from keys have absent: "query_first d k = None \<longrightarrow> query_first (prune_cycle now d) k = None"
    by simp
  from len rows found absent show ?thesis by (intro conjI)
qed

theorem prune_cycle_eviction_witness:
  "query_first [\<lparr>user_id = 1, username = ''bob'', hashed_password = ''h'',
                 is_online = True, last_ping = 0, is_busy = True\<rparr>,
                \<lparr>user_id = 2, username = ''eve'', hashed_password = ''h'',
                 is_online = True, last_ping = 5000000, is_busy = True\<rparr>] ''bob''
     = Some \<lparr>user_id = 1, username = ''bob'', hashed_password = ''h'',
              is_online = True, last_ping = 0, is_busy = True\<rparr>
   \<and> 65000000 - (0::int) > timedelta 60
   \<and> \<not> 65000000 - (5000000::int) > timedelta 60
   \<and> prune_cycle 65000000
       [\<lparr>user_id = 1, username = ''bob'', hashed_password = ''h'',
         is_online = True, last_ping = 0, is_busy = True\<rparr>,
        \<lparr>user_id = 2, username = ''eve'', hashed_password = ''h'',
         is_online = True, last_ping = 5000000, is_busy = True\<rparr>]
     = [\<lparr>user_id = 1, username = ''bob'', hashed_password = ''h'',
         is_online = False, last_ping = 0, is_busy = False\<rparr>,
        \<lparr>user_id = 2, username = ''eve'', hashed_password = ''h'',
         is_online = True, last_ping = 5000000, is_busy = True\<rparr>]
   \<and> query_first (prune_cycle 65000000
       [\<lparr>user_id = 1, username = ''bob'', hashed_password = ''h'',
         is_online = True, last_ping = 0, is_busy = True\<rparr>,
        \<lparr>user_id = 2, username = ''eve'', hashed_password = ''h'',
         is_online = True, last_ping = 5000000, is_busy = True\<rparr>]) ''bob''
     = Some \<lparr>user_id = 1, username = ''bob'', hashed_password = ''h'',
              is_online = False, last_ping = 0, is_busy = False\<rparr>
   \<and> query_first (prune_cycle 65000000
       [\<lparr>user_id = 1, username = ''bob'', hashed_password = ''h'',
         is_online = True, last_ping = 0, is_busy = True\<rparr>,
        \<lparr>user_id = 2, username = ''eve'', hashed_password = ''h'',
         is_online = True, last_ping = 5000000, is_busy = True\<rparr>]) ''zed'' = None"
  using prune_cycle_eviction [of 65000000
       "[\<lparr>user_id = 1, username = ''bob'', hashed_password = ''h'',
         is_online = True, last_ping = 0, is_busy = True\<rparr>,
        \<lparr>user_id = 2, username = ''eve'', hashed_password = ''h'',
         is_online = True, last_ping = 5000000, is_busy = True\<rparr>]" "''bob''"]
    prune_cycle_eviction [of 65000000
       "[\<lparr>user_id = 1, username = ''bob'', hashed_password = ''h'',
         is_online = True, last_ping = 0, is_busy = True\<rparr>,
        \<lparr>user_id = 2, username = ''eve'', hashed_password = ''h'',
         is_online = True, last_ping = 5000000, is_busy = True\<rparr>]" "''zed''"]
  by (simp add: timedelta_def prune_cycle_def stale_def)

subsection \<open>The availability query\<close>

lemma get_users_filter:
  "get_users now d =
     filter (\<lambda>u. is_online u = True \<and> is_busy u = False \<and> now - last_ping u < timedelta 60) d"
  unfolding get_users_def Let_def by (rule filter_cong) auto

text \<open>
  Claim C3, as amended. \<open>get_users\<close> at time \<open>now\<close> returns exactly the rows that
  are online, not busy and have \<open>now - last_ping\<close> strictly below 60 seconds, in table
  order. After \<open>ping\<close> succeeds for a user at time \<open>t\<close>, and while that user is not
  busy, the user is in the result of \<open>get_users\<close> at every time strictly before
  \<open>t\<close> plus 60 seconds.
\<close>

theorem get_users_fresh:
  "get_users now d =
     filter (\<lambda>u. is_online u = True \<and> is_busy u = False \<and> now - last_ping u < timedelta 60) d
   \<and> (\<forall>u. query_first d k = Some u \<and> is_busy u = False \<and> t' < t + timedelta 60 \<longrightarrow>
        fst (ping t k d) = Inr [(''status'', ''ok'')]
      \<and> query_first (snd (ping t k d)) k = Some (u\<lparr>last_ping := t, is_online := True\<rparr>)
      \<and> u\<lparr>last_ping := t, is_online := True\<rparr> \<in> set (get_users t' (snd (ping t k d)))
      \<and> k \<in> set (map username (get_users t' (snd (ping t k d)))))"
proof -
  have after: "fst (ping t k d) = Inr [(''status'', ''ok'')]
      \<and> query_first (snd (ping t k d)) k = Some (u\<lparr>last_ping := t, is_online := True\<rparr>)
      \<and> u\<lparr>last_ping := t, is_online := True\<rparr> \<in> set (get_users t' (snd (ping t k d)))
      \<and> k \<in> set (map username (get_users t' (snd (ping t k d))))"
    if found: "query_first d k = Some u" and free: "is_busy u = False"
      and early: "t' < t + timedelta 60" for u
  proof -
    let ?u' = "u\<lparr>last_ping := t, is_online := True\<rparr>"
    from found have res: "fst (ping t k d) = Inr [(''status'', ''ok'')]"
      by (simp add: ping_def)
    from found have q: "query_first (snd (ping t k d)) k = Some ?u'"
      by (simp add: ping_def query_first_commit_update_same)
    then have mem: "?u' \<in> set (snd (ping t k d))" and name: "username ?u' = k"
      using query_first_SomeD by blast+
    from mem free early have listed: "?u' \<in> set (get_users t' (snd (ping t k d)))"
      by (simp add: get_users_filter)
    from listed name have "k \<in> username ` set (get_users t' (snd (ping t k d)))"
      by (metis imageI)
    with res q listed show ?thesis by simp
  qed
  with get_users_filter show ?thesis by blast
qed

theorem get_users_fresh_witness:
  "query_first [\<lparr>user_id = 1, username = ''carol'', hashed_password = ''h'',
                 is_online = False, last_ping = 0, is_busy = False\<rparr>] ''carol''
     = Some \<lparr>user_id = 1, username = ''carol'', hashed_password = ''h'',
              is_online = False, last_ping = 0, is_busy = False\<rparr>
   \<and> (69999999::int) < 10000000 + timedelta 60
   \<and> get_users 69999999 (snd (ping 10000000 ''carol''
        [\<lparr>user_id = 1, username = ''carol'', hashed_password = ''h'',
          is_online = False, last_ping = 0, is_busy = False\<rparr>]))
     = [\<lparr>user_id = 1, username = ''carol'', hashed_password = ''h'',
         is_online = True, last_ping = 10000000, is_busy = False\<rparr>]
   \<and> ''carol'' \<in> set (map username (get_users 69999999 (snd (ping 10000000 ''carol''
        [\<lparr>user_id = 1, username = ''carol'', hashed_password = ''h'',
          is_online = False, last_ping = 0, is_busy = False\<rparr>]))))"
  using get_users_fresh [of 69999999 "[\<lparr>user_id = 1, username = ''carol'', hashed_password = ''h'',
          is_online = False, last_ping = 0, is_busy = False\<rparr>]" "''carol''" 69999999 10000000]
  by (simp add: timedelta_def ping_def get_users_def)

text \<open>
  Claim C3 as stated fails at the boundary: a user who pinged at time 0 and is not busy
  is not returned by \<open>get_users\<close> exactly 60 seconds later, where \<open>t' \<le> t + ttl\<close> and
  \<open>now - last_ping \<le> ttl\<close> both hold.
\<close>

theorem get_users_boundary_counterexample:
  "fst (ping 0 ''carol'' [\<lparr>user_id = 1, username = ''carol'', hashed_password = ''h'',
          is_online = False, last_ping = 0, is_busy = False\<rparr>]) = Inr [(''status'', ''ok'')]
   \<and> snd (ping 0 ''carol'' [\<lparr>user_id = 1, username = ''carol'', hashed_password = ''h'',
          is_online = False, last_ping = 0, is_busy = False\<rparr>])
      = [\<lparr>user_id = 1, username = ''carol'', hashed_password = ''h'',
          is_online = True, last_ping = 0, is_busy = False\<rparr>]
   \<and> timedelta 60 \<le> 0 + timedelta 60
   \<and> timedelta 60 - 0 \<le> timedelta 60
   \<and> ''carol'' \<notin> set (map username (get_users (timedelta 60)
        (snd (ping 0 ''carol'' [\<lparr>user_id = 1, username = ''carol'', hashed_password = ''h'',
          is_online = False, last_ping = 0, is_busy = False\<rparr>]))))"
  by (simp add: ping_def get_users_def timedelta_def)

text \<open>Every table reached from the empty one has unique usernames.\<close>

lemma unique_usernames_step:
  "unique_usernames d \<Longrightarrow> unique_usernames (step h v opn d)"
proof (cases opn)
  case (Register k p now)
  assume "unique_usernames d"
  then show ?thesis
    by (auto simp: Register register_def Let_def unique_usernames_def query_first_None_iff
        split: option.splits)
next
  case (Login k p now)
  assume "unique_usernames d"
  then show ?thesis
    by (cases "query_first d k")
       (simp_all add: Login login_def unique_usernames_def map_username_commit_update
          split: option.splits)
next
  case (Ping k now)
  assume "unique_usernames d"
  then show ?thesis
    by (cases "query_first d k")
       (simp_all add: Ping ping_def unique_usernames_def map_username_commit_update)
next
  case (SetBusy k b)
  assume "unique_usernames d"
  then show ?thesis
    by (cases "query_first d k")
       (simp_all add: SetBusy update_status_def unique_usernames_def map_username_commit_update)
next
  case (Sweep now)
  have "map username (prune_cycle now d) = map username d"
    by (simp add: prune_cycle_def Let_def)
  moreover assume "unique_usernames d"
  ultimately show ?thesis
    by (simp add: Sweep unique_usernames_def)
qed

lemma unique_usernames_run:
  "unique_usernames d \<Longrightarrow> unique_usernames (run h v opns d)"
  by (induction opns arbitrary: d) (simp_all add: unique_usernames_step)

lemma unique_usernames_reachable: "unique_usernames (run h v opns [])"
  by (rule unique_usernames_run) (simp add: unique_usernames_def)

text \<open>
  Claim C4. In a table with unique usernames, a user whose row is online and busy is
  not in the result of \<open>get_users\<close>, whatever the time and the row's \<open>last_ping\<close>.
\<close>

theorem get_users_excludes_busy:
  "unique_usernames d \<Longrightarrow> query_first d k = Some u \<Longrightarrow> is_online u = True \<Longrightarrow>
   is_busy u = True \<Longrightarrow>
   k \<notin> set (map username (get_users now d)) \<and> u \<notin> set (get_users now d)"
proof -
  assume uniq: "unique_usernames d" and found: "query_first d k = Some u"
    and busy: "is_busy u = True"
  from found have mem: "u \<in> set d" and name: "username u = k"
    using query_first_SomeD by blast+
  have "k \<notin> set (map username (get_users now d))"
  proof
    assume "k \<in> set (map username (get_users now d))"
    then obtain u' where listed: "u' \<in> set (get_users now d)" and name': "username u' = k"
      by auto
    from listed have mem': "u' \<in> set d" and free: "is_busy u' = False"
      by (simp_all add: get_users_filter)
    from uniq mem mem' name name' have "u = u'"
      by (simp add: unique_usernames_eq)
    with busy free show False by simp
  qed
  moreover from busy have "u \<notin> set (get_users now d)"
    by (simp add: get_users_filter)
  ultimately show ?thesis by simp
qed

theorem get_users_excludes_busy_witness:
  "unique_usernames [\<lparr>user_id = 1, username = ''alice'', hashed_password = ''h'',
                      is_online = True, last_ping = 100, is_busy = True\<rparr>,
                     \<lparr>user_id = 2, username = ''bob'', hashed_password = ''h'',
                      is_online = True, last_ping = 100, is_busy = False\<rparr>]
   \<and> ''alice'' \<notin> set (map username (get_users 100
        [\<lparr>user_id = 1, username = ''alice'', hashed_password = ''h'',
          is_online = True, last_ping = 100, is_busy = True\<rparr>,
         \<lparr>user_id = 2, username = ''bob'', hashed_password = ''h'',
          is_online = True, last_ping = 100, is_busy = False\<rparr>]))
   \<and> map username (get_users 100
        [\<lparr>user_id = 1, username = ''alice'', hashed_password = ''h'',
          is_online = True, last_ping = 100, is_busy = True\<rparr>,
         \<lparr>user_id = 2, username = ''bob'', hashed_password = ''h'',
          is_online = True, last_ping = 100, is_busy = False\<rparr>]) = [''bob'']"
proof -
  let ?d = "[\<lparr>user_id = 1, username = ''alice'', hashed_password = ''h'',
              is_online = True, last_ping = 100, is_busy = True\<rparr>,
             \<lparr>user_id = 2, username = ''bob'', hashed_password = ''h'',
              is_online = True, last_ping = 100, is_busy = False\<rparr>]"
  have uniq: "unique_usernames ?d" by (simp add: unique_usernames_def)
  have found: "query_first ?d ''alice'' = Some \<lparr>user_id = 1, username = ''alice'',
      hashed_password = ''h'', is_online = True, last_ping = 100, is_busy = True\<rparr>"
    by simp
  have res: "map username (get_users 100 ?d) = [''bob'']"
    by (simp add: get_users_def timedelta_def)
  from get_users_excludes_busy [OF uniq found, of 100] uniq res show ?thesis by simp
qed

subsection \<open>Client operations\<close>

text \<open>
  Claim C6. None of \<open>register\<close>, \<open>login\<close>, \<open>ping\<close> and \<open>update_status\<close>, whether
  it succeeds or raises, takes a user from online to offline: a username whose row is
  online before the call has an online row after it.
\<close>

theorem client_steps_keep_online:
  "query_first d k = Some u \<Longrightarrow> is_online u = True \<Longrightarrow>
     (\<exists>u'. query_first (snd (register pwd_hash now uname pw d)) k = Some u' \<and> is_online u' = True)
   \<and> (\<exists>u'. query_first (snd (login pwd_verify now uname pw d)) k = Some u' \<and> is_online u' = True)
   \<and> (\<exists>u'. query_first (snd (ping now uname d)) k = Some u' \<and> is_online u' = True)
   \<and> (\<exists>u'. query_first (snd (update_status uname busy d)) k = Some u' \<and> is_online u' = True)"
proof -
  assume found: "query_first d k = Some u" and on: "is_online u = True"
  have upd: "\<exists>u'. query_first (commit_update f uname d) k = Some u' \<and> is_online u' = True"
    if name: "\<And>x. username (f x) = username x" and keep: "is_online (f u) = True" for f
  proof (cases "k = uname")
    case True
    with found keep show ?thesis
      by (simp add: query_first_commit_update_same [OF name])
  next
    case False
    with found on show ?thesis
      by (simp add: query_first_commit_update_other [OF name])
  qed
  have reg: "\<exists>u'. query_first (snd (register pwd_hash now uname pw d)) k = Some u' \<and> is_online u' = True"
    using found on
    by (cases "query_first d uname"; cases "pwd_hash pw")
       (simp_all add: register_def Let_def query_first_append)
  have log: "\<exists>u'. query_first (snd (login pwd_verify now uname pw d)) k = Some u' \<and> is_online u' = True"
    using found on upd [of "\<lambda>u. u\<lparr>is_online := True, last_ping := now\<rparr>"]
    by (cases "query_first d uname") (simp_all add: login_def split: option.splits)
  have png: "\<exists>u'. query_first (snd (ping now uname d)) k = Some u' \<and> is_online u' = True"
    using found on upd [of "\<lambda>u. u\<lparr>last_ping := now, is_online := True\<rparr>"]
    by (cases "query_first d uname") (simp_all add: ping_def)
  have sts: "\<exists>u'. query_first (snd (update_status uname busy d)) k = Some u' \<and> is_online u' = True"
    using found on upd [of "\<lambda>u. u\<lparr>is_busy := busy\<rparr>"]
    by (cases "query_first d uname") (simp_all add: update_status_def)
  from reg log png sts show ?thesis by (intro conjI)
qed

theorem client_steps_keep_online_witness:
  "query_first [\<lparr>user_id = 1, username = ''alice'', hashed_password = ''wp'',
                 is_online = True, last_ping = 0, is_busy = False\<rparr>] ''alice''
     = Some \<lparr>user_id = 1, username = ''alice'', hashed_password = ''wp'',
              is_online = True, last_ping = 0, is_busy = False\<rparr>
   \<and> (\<exists>u'. query_first (snd (register nul_rejecting_hash 7 ''alice'' ''pw''
          [\<lparr>user_id = 1, username = ''alice'', hashed_password = ''wp'',
            is_online = True, last_ping = 0, is_busy = False\<rparr>])) ''alice'' = Some u'
        \<and> is_online u' = True)
   \<and> (\<exists>u'. query_first (snd (login nul_rejecting_verify 7 ''alice'' ''pw''
          [\<lparr>user_id = 1, username = ''alice'', hashed_password = ''wp'',
            is_online = True, last_ping = 0, is_busy = False\<rparr>])) ''alice'' = Some u'
        \<and> is_online u' = True)
   \<and> (\<exists>u'. query_first (snd (ping 7 ''alice''
          [\<lparr>user_id = 1, username = ''alice'', hashed_password = ''wp'',
            is_online = True, last_ping = 0, is_busy = False\<rparr>])) ''alice'' = Some u'
        \<and> is_online u' = True)
   \<and> (\<exists>u'. query_first (snd (update_status ''alice'' True
          [\<lparr>user_id = 1, username = ''alice'', hashed_password = ''wp'',
            is_online = True, last_ping = 0, is_busy = False\<rparr>])) ''alice'' = Some u'
        \<and> is_online u' = True)"
proof -
  let ?u = "\<lparr>user_id = 1, username = ''alice'', hashed_password = ''wp'',
             is_online = True, last_ping = 0, is_busy = False\<rparr>"
  have found: "query_first [?u] ''alice'' = Some ?u" by simp
  have on: "is_online ?u = True" by simp
  from client_steps_keep_online [OF found on, of nul_rejecting_hash 7 "''alice''" "''pw''" nul_rejecting_verify True] found
  show ?thesis by simp
qed

text \<open>
  Claim C7. \<open>update_status\<close> fails with status 404 and the detail "User not found"
  exactly when no row has the username. Otherwise it succeeds, the row found for the
  username is the former one with \<open>is_busy\<close> set to the given value (so \<open>is_online\<close>,
  \<open>last_ping\<close> and its other fields are as before), and the row found for any other
  username is unchanged.
\<close>

theorem update_status_frame:
  "(fst (update_status k b d) = Inl (HTTPException 404 ''User not found''))
     = (k \<notin> set (map username d))
   \<and> (\<forall>u. query_first d k = Some u \<longrightarrow>
        fst (update_status k b d) = Inr [(''status'', ''updated'')]
      \<and> query_first (snd (update_status k b d)) k = Some (u\<lparr>is_busy := b\<rparr>)
      \<and> (\<exists>u'. query_first (snd (update_status k b d)) k = Some u'
             \<and> is_busy u' = b \<and> is_online u' = is_online u \<and> last_ping u' = last_ping u))
   \<and> (\<forall>k'. k' \<noteq> k \<longrightarrow> query_first (snd (update_status k b d)) k' = query_first d k')
   \<and> length (snd (update_status k b d)) = length d
   \<and> (\<forall>i < length d. username (d ! i) \<noteq> k \<longrightarrow> snd (update_status k b d) ! i = d ! i)"
proof -
  have name: "username (u\<lparr>is_busy := b\<rparr>) = username u" for u :: User by simp
  have rows: "length (commit_update f k d) = length d \<and>
      (\<forall>i < length d. username (d ! i) \<noteq> k \<longrightarrow> commit_update f k d ! i = d ! i)" for f
  proof (induction d)
    case Nil
    show ?case by simp
  next
    case (Cons x xs)
    show ?case
    proof (cases "username x = k")
      case True
      then show ?thesis by (auto simp: nth_Cons split: nat.splits)
    next
      case False
      with Cons show ?thesis by (auto simp: nth_Cons split: nat.splits)
    qed
  qed
  have err: "(fst (update_status k b d) = Inl (HTTPException 404 ''User not found''))
     = (k \<notin> set (map username d))"
    using query_first_None_iff [of d k]
    by (cases "query_first d k") (simp_all add: update_status_def)
  have ok: "\<forall>u. query_first d k = Some u \<longrightarrow>
        fst (update_status k b d) = Inr [(''status'', ''updated'')]
      \<and> query_first (snd (update_status k b d)) k = Some (u\<lparr>is_busy := b\<rparr>)
      \<and> (\<exists>u'. query_first (snd (update_status k b d)) k = Some u'
             \<and> is_busy u' = b \<and> is_online u' = is_online u \<and> last_ping u' = last_ping u)"
    by (simp add: update_status_def query_first_commit_update_same [OF name])
  have others: "\<forall>k'. k' \<noteq> k \<longrightarrow> query_first (snd (update_status k b d)) k' = query_first d k'"
    by (cases "query_first d k")
       (simp_all add: update_status_def query_first_commit_update_other [OF name])
  have len: "length (snd (update_status k b d)) = length d"
    using rows by (cases "query_first d k") (simp_all add: update_status_def)
  have frame: "\<forall>i < length d. username (d ! i) \<noteq> k \<longrightarrow> snd (update_status k b d) ! i = d ! i"
    using rows by (cases "query_first d k") (simp_all add: update_status_def)
  from err ok others len frame show ?thesis by (intro conjI)
qed

theorem update_status_frame_witness:
  "update_status ''alice'' True
     [\<lparr>user_id = 1, username = ''alice'', hashed_password = ''h'',
       is_online = True, last_ping = 3, is_busy = False\<rparr>,
      \<lparr>user_id = 2, username = ''bob'', hashed_password = ''h'',
       is_online = False, last_ping = 4, is_busy = False\<rparr>]
   = (Inr [(''status'', ''updated'')],
      [\<lparr>user_id = 1, username = ''alice'', hashed_password = ''h'',
        is_online = True, last_ping = 3, is_busy = True\<rparr>,
       \<lparr>user_id = 2, username = ''bob'', hashed_password = ''h'',
        is_online = False, last_ping = 4, is_busy = False\<rparr>])
   \<and> ''bob'' \<noteq> ''alice''
   \<and> query_first (snd (update_status ''alice'' True
     [\<lparr>user_id = 1, username = ''alice'', hashed_password = ''h'',
       is_online = True, last_ping = 3, is_busy = False\<rparr>,
      \<lparr>user_id = 2, username = ''bob'', hashed_password = ''h'',
       is_online = False, last_ping = 4, is_busy = False\<rparr>])) ''bob''
     = Some \<lparr>user_id = 2, username = ''bob'', hashed_password = ''h'',
       is_online = False, last_ping = 4, is_busy = False\<rparr>
   \<and> fst (update_status ''carol'' True
     [\<lparr>user_id = 1, username = ''alice'', hashed_password = ''h'',
       is_online = True, last_ping = 3, is_busy = False\<rparr>,
      \<lparr>user_id = 2, username = ''bob'', hashed_password = ''h'',
       is_online = False, last_ping = 4, is_busy = False\<rparr>])
     = Inl (HTTPException 404 ''User not found'')"
  using update_status_frame [of "''alice''" True
     "[\<lparr>user_id = 1, username = ''alice'', hashed_password = ''h'',
       is_online = True, last_ping = 3, is_busy = False\<rparr>,
      \<lparr>user_id = 2, username = ''bob'', hashed_password = ''h'',
       is_online = False, last_ping = 4, is_busy = False\<rparr>]"]
  by (simp add: update_status_def)

text \<open>
  Claim C8. \<open>ping\<close> for the same user at the same time, run twice in a row, gives the
  same result and the same table as running it once. After it the row found for an
  existing user is the former one with \<open>is_online\<close> true and \<open>last_ping\<close> that time,
  \<open>is_busy\<close> and the other fields as before, and the row found for any other username
  is unchanged.
\<close>

theorem ping_idempotent:
  "ping t k (snd (ping t k d)) = ping t k d
   \<and> (\<forall>u. query_first d k = Some u \<longrightarrow>
        fst (ping t k d) = Inr [(''status'', ''ok'')]
      \<and> query_first (snd (ping t k d)) k = Some (u\<lparr>last_ping := t, is_online := True\<rparr>)
      \<and> query_first (snd (ping t k (snd (ping t k d)))) k
           = Some (u\<lparr>last_ping := t, is_online := True\<rparr>))
   \<and> (\<forall>k'. k' \<noteq> k \<longrightarrow> query_first (snd (ping t k d)) k' = query_first d k')"
proof -
  let ?f = "\<lambda>u :: User. u\<lparr>last_ping := t, is_online := True\<rparr>"
  have name: "username (?f u) = username u" for u by simp
  have twice: "?f \<circ> ?f = ?f" by (rule ext) simp
  have same: "ping t k (snd (ping t k d)) = ping t k d"
  proof (cases "query_first d k")
    case None
    then show ?thesis by (simp add: ping_def)
  next
    case (Some u)
    then have "query_first (commit_update ?f k d) k = Some (?f u)"
      by (simp add: query_first_commit_update_same [OF name])
    with Some show ?thesis
      by (simp add: ping_def commit_update_twice [OF name] twice)
  qed
  have row: "\<forall>u. query_first d k = Some u \<longrightarrow>
        fst (ping t k d) = Inr [(''status'', ''ok'')]
      \<and> query_first (snd (ping t k d)) k = Some (?f u)"
    by (simp add: ping_def query_first_commit_update_same [OF name])
  have others: "\<forall>k'. k' \<noteq> k \<longrightarrow> query_first (snd (ping t k d)) k' = query_first d k'"
    by (cases "query_first d k")
       (simp_all add: ping_def query_first_commit_update_other [OF name])
  from same row others show ?thesis by simp
qed

theorem ping_idempotent_witness:
  "query_first [\<lparr>user_id = 1, username = ''alice'', hashed_password = ''h'',
                 is_online = False, last_ping = 3, is_busy = True\<rparr>,
                \<lparr>user_id = 2, username = ''bob'', hashed_password = ''h'',
                 is_online = False, last_ping = 4, is_busy = False\<rparr>] ''alice''
     = Some \<lparr>user_id = 1, username = ''alice'', hashed_password = ''h'',
              is_online = False, last_ping = 3, is_busy = True\<rparr>
   \<and> ''bob'' \<noteq> ''alice''
   \<and> ping 9 ''alice'' (snd (ping 9 ''alice''
        [\<lparr>user_id = 1, username = ''alice'', hashed_password = ''h'',
          is_online = False, last_ping = 3, is_busy = True\<rparr>,
         \<lparr>user_id = 2, username = ''bob'', hashed_password = ''h'',
          is_online = False, last_ping = 4, is_busy = False\<rparr>]))
     = (Inr [(''status'', ''ok'')],
        [\<lparr>user_id = 1, username = ''alice'', hashed_password = ''h'',
          is_online = True, last_ping = 9, is_busy = True\<rparr>,
         \<lparr>user_id = 2, username = ''bob'', hashed_password = ''h'',
          is_online = False, last_ping = 4, is_busy = False\<rparr>])
   \<and> ping 9 ''alice''
        [\<lparr>user_id = 1, username = ''alice'', hashed_password = ''h'',
          is_online = False, last_ping = 3, is_busy = True\<rparr>,
         \<lparr>user_id = 2, username = ''bob'', hashed_password = ''h'',
          is_online = False, last_ping = 4, is_busy = False\<rparr>]
     = (Inr [(''status'', ''ok'')],
        [\<lparr>user_id = 1, username = ''alice'', hashed_password = ''h'',
          is_online = True, last_ping = 9, is_busy = True\<rparr>,
         \<lparr>user_id = 2, username = ''bob'', hashed_password = ''h'',
          is_online = False, last_ping = 4, is_busy = False\<rparr>])"
  using ping_idempotent [of 9 "''alice''"
        "[\<lparr>user_id = 1, username = ''alice'', hashed_password = ''h'',
          is_online = False, last_ping = 3, is_busy = True\<rparr>,
         \<lparr>user_id = 2, username = ''bob'', hashed_password = ''h'',
          is_online = False, last_ping = 4, is_busy = False\<rparr>]"]
  by (simp add: ping_def)

subsection \<open>Failures\<close>

text \<open>
  When the verification returns, the two failures of \<open>login\<close> are equal: for a
  username that no row has, and for an existing username whose password does not verify,
  it raises status 400 with the detail "Invalid credentials".
\<close>

lemma login_failures_equal_when_verify_returns:
  "query_first d1 k1 = None \<Longrightarrow> query_first d2 k2 = Some u \<Longrightarrow>
   pwd_verify pw2 (hashed_password u) = Some False \<Longrightarrow>
     fst (login pwd_verify now1 k1 pw1 d1) = fst (login pwd_verify now2 k2 pw2 d2)
   \<and> fst (login pwd_verify now2 k2 pw2 d2) = Inl (HTTPException 400 ''Invalid credentials'')"
  by (simp add: login_def)

text \<open>
  Claim C9 fails on the code. \<open>login\<close> calls the verification only when a row was
  found, and does not catch what it raises. With a password that makes the verification
  raise (one containing a NUL byte), and so does not match, an unknown username gets
  status 400 with "Invalid credentials" and a registered one gets the uncaught
  exception: the caller tells the two apart.
\<close>

theorem login_failures_distinguished:
  "snd (register nul_rejecting_hash 0 ''alice'' ''secret'' [])
     = [\<lparr>user_id = 1, username = ''alice'', hashed_password = ''terces'',
         is_online = False, last_ping = 0, is_busy = False\<rparr>]
   \<and> query_first (snd (register nul_rejecting_hash 0 ''alice'' ''secret'' [])) ''mallory'' = None
   \<and> fst (login nul_rejecting_verify 5 ''mallory'' [CHR ''p'', CHR 0x00]
        (snd (register nul_rejecting_hash 0 ''alice'' ''secret'' [])))
     = Inl (HTTPException 400 ''Invalid credentials'')
   \<and> fst (login nul_rejecting_verify 5 ''alice'' [CHR ''p'', CHR 0x00]
        (snd (register nul_rejecting_hash 0 ''alice'' ''secret'' [])))
     = Inl PasslibError
   \<and> fst (login nul_rejecting_verify 5 ''mallory'' [CHR ''p'', CHR 0x00]
        (snd (register nul_rejecting_hash 0 ''alice'' ''secret'' [])))
     \<noteq> fst (login nul_rejecting_verify 5 ''alice'' [CHR ''p'', CHR 0x00]
        (snd (register nul_rejecting_hash 0 ''alice'' ''secret'' [])))"
  by (simp add: register_def login_def next_id_def nul_rejecting_hash_def
      nul_rejecting_verify_def)

text \<open>
  Claim C10. A call that raises leaves the table as it was, whatever it raises:
  \<open>register\<close> for a duplicate username, \<open>login\<close> for invalid credentials, \<open>ping\<close>
  and \<open>update_status\<close> for an unknown user, and \<open>register\<close> and \<open>login\<close> when the
  password context raises.
\<close>

theorem failure_leaves_table_unchanged:
  "(fst (register pwd_hash now kr pw d) = Inl er \<longrightarrow> snd (register pwd_hash now kr pw d) = d)
   \<and> (fst (login pwd_verify now kl pw d) = Inl el \<longrightarrow> snd (login pwd_verify now kl pw d) = d)
   \<and> (fst (ping now kp d) = Inl ep \<longrightarrow> snd (ping now kp d) = d)
   \<and> (fst (update_status ks b d) = Inl es \<longrightarrow> snd (update_status ks b d) = d)"
proof (intro conjI)
  show "fst (register pwd_hash now kr pw d) = Inl er \<longrightarrow> snd (register pwd_hash now kr pw d) = d"
    by (cases "query_first d kr"; cases "pwd_hash pw") (simp_all add: register_def Let_def)
  show "fst (login pwd_verify now kl pw d) = Inl el \<longrightarrow> snd (login pwd_verify now kl pw d) = d"
    by (cases "query_first d kl") (simp_all add: login_def split: option.splits)
  show "fst (ping now kp d) = Inl ep \<longrightarrow> snd (ping now kp d) = d"
    by (cases "query_first d kp") (simp_all add: ping_def)
  show "fst (update_status ks b d) = Inl es \<longrightarrow> snd (update_status ks b d) = d"
    by (cases "query_first d ks") (simp_all add: update_status_def)
qed

theorem failure_leaves_table_unchanged_witness:
  "register nul_rejecting_hash 5 ''alice'' ''x''
      [\<lparr>user_id = 1, username = ''alice'', hashed_password = ''terces'',
        is_online = True, last_ping = 0, is_busy = True\<rparr>]
     = (Inl (HTTPException 400 ''Username already registered''),
        [\<lparr>user_id = 1, username = ''alice'', hashed_password = ''terces'',
          is_online = True, last_ping = 0, is_busy = True\<rparr>])
   \<and> login nul_rejecting_verify 5 ''alice'' ''x''
      [\<lparr>user_id = 1, username = ''alice'', hashed_password = ''terces'',
        is_online = True, last_ping = 0, is_busy = True\<rparr>]
     = (Inl (HTTPException 400 ''Invalid credentials''),
        [\<lparr>user_id = 1, username = ''alice'', hashed_password = ''terces'',
          is_online = True, last_ping = 0, is_busy = True\<rparr>])
   \<and> ping 5 ''bob''
      [\<lparr>user_id = 1, username = ''alice'', hashed_password = ''terces'',
        is_online = True, last_ping = 0, is_busy = True\<rparr>]
     = (Inl (HTTPException 404 ''User not found''),
        [\<lparr>user_id = 1, username = ''alice'', hashed_password = ''terces'',
          is_online = True, last_ping = 0, is_busy = True\<rparr>])
   \<and> update_status ''bob'' False
      [\<lparr>user_id = 1, username = ''alice'', hashed_password = ''terces'',
        is_online = True, last_ping = 0, is_busy = True\<rparr>]
     = (Inl (HTTPException 404 ''User not found''),
        [\<lparr>user_id = 1, username = ''alice'', hashed_password = ''terces'',
          is_online = True, last_ping = 0, is_busy = True\<rparr>])
   \<and> register nul_rejecting_hash 5 ''bob'' [CHR ''p'', CHR 0x00]
      [\<lparr>user_id = 1, username = ''alice'', hashed_password = ''terces'',
        is_online = True, last_ping = 0, is_busy = True\<rparr>]
     = (Inl PasslibError,
        [\<lparr>user_id = 1, username = ''alice'', hashed_password = ''terces'',
          is_online = True, last_ping = 0, is_busy = True\<rparr>])
   \<and> login nul_rejecting_verify 5 ''alice'' [CHR ''p'', CHR 0x00]
      [\<lparr>user_id = 1, username = ''alice'', hashed_password = ''terces'',
        is_online = True, last_ping = 0, is_busy = True\<rparr>]
     = (Inl PasslibError,
        [\<lparr>user_id = 1, username = ''alice'', hashed_password = ''terces'',
          is_online = True, last_ping = 0, is_busy = True\<rparr>])"
proof -
  let ?d = "[\<lparr>user_id = 1, username = ''alice'', hashed_password = ''terces'',
        is_online = True, last_ping = 0, is_busy = True\<rparr>]"
  let ?nul = "[CHR ''p'', CHR 0x00]"
  have r: "fst (register nul_rejecting_hash 5 ''alice'' ''x'' ?d)
      = Inl (HTTPException 400 ''Username already registered'')"
    by (simp add: register_def)
  have l: "fst (login nul_rejecting_verify 5 ''alice'' ''x'' ?d)
      = Inl (HTTPException 400 ''Invalid credentials'')"
    by (simp add: login_def nul_rejecting_verify_def)
  have p: "fst (ping 5 ''bob'' ?d) = Inl (HTTPException 404 ''User not found'')"
    by (simp add: ping_def)
  have s: "fst (update_status ''bob'' False ?d) = Inl (HTTPException 404 ''User not found'')"
    by (simp add: update_status_def)
  have r': "fst (register nul_rejecting_hash 5 ''bob'' ?nul ?d) = Inl PasslibError"
    by (simp add: register_def nul_rejecting_hash_def)
  have l': "fst (login nul_rejecting_verify 5 ''alice'' ?nul ?d) = Inl PasslibError"
    by (simp add: login_def nul_rejecting_verify_def)
  from failure_leaves_table_unchanged [of nul_rejecting_hash 5 "''alice''" "''x''" ?d
      "HTTPException 400 ''Username already registered''" nul_rejecting_verify "''alice''"
      "HTTPException 400 ''Invalid credentials''" "''bob''"
      "HTTPException 404 ''User not found''" "''bob''" False
      "HTTPException 404 ''User not found''"]
    failure_leaves_table_unchanged [of nul_rejecting_hash 5 "''bob''" ?nul ?d
      PasslibError nul_rejecting_verify "''alice''" PasslibError]
    r l p s r' l'
  show ?thesis by (simp add: prod_eq_iff)
qed

end
